theory Spec2Isabelle
  imports Main "HOL-Library.Word" "HOL-Library.Sublist" "HOL-Library.Multiset"
begin

section \<open>Strings\<close>

text \<open>
  A JavaScript string is a sequence of UTF-16 code units, and \<open>===\<close> on two strings
  compares the sequences. \<open>js\<close> writes an ASCII literal of the source as such a sequence.
\<close>

type_synonym jsstring = "16 word list"

definition js :: "string \<Rightarrow> jsstring" where
  "js s = map of_char s"

text \<open>
  \<open>String.prototype.trim\<close> removes the leading and the trailing code units that are white
  space or line terminators of ECMAScript: TAB, LF, VT, FF, CR, SP, NBSP, the other members of
  the Unicode category Zs (U+1680, U+2000 to U+200A, U+202F, U+205F, U+3000), LS, PS and the
  byte order mark U+FEFF. All of them are single code units.
\<close>

definition WhiteSpace :: "16 word \<Rightarrow> bool" where
  "WhiteSpace c \<longleftrightarrow>
     c \<in> {0x9, 0xA, 0xB, 0xC, 0xD, 0x20, 0xA0, 0x1680, 0x2028, 0x2029, 0x202F, 0x205F, 0x3000, 0xFEFF}
     \<or> (0x2000 \<le> c \<and> c \<le> 0x200A)"

definition trim :: "jsstring \<Rightarrow> jsstring" where
  "trim s = rev (dropWhile WhiteSpace (rev (dropWhile WhiteSpace s)))"

text \<open>
  \<open>s.slice(start, end)\<close> for two indices that are not negative: both are clamped to the
  length of the string, and the result is empty when the clamped start is not below the end.
\<close>

definition slice :: "nat \<Rightarrow> nat \<Rightarrow> jsstring \<Rightarrow> jsstring" where
  "slice start end s = drop start (take end s)"

text \<open>
  The decimal digits of a natural number, and the string a template literal makes of an
  integral Number. A time value lies within 8.64e15 milliseconds of the epoch, so
  \<open>Date.now()\<close> is always written in plain decimal notation, with a minus sign before 1970.
\<close>

fun digits :: "nat \<Rightarrow> jsstring" where
  "digits n = (if n < 10 then [of_nat (48 + n)] else digits (n div 10) @ [of_nat (48 + n mod 10)])"

declare digits.simps [simp del]

definition Number_toString :: "int \<Rightarrow> jsstring" where
  "Number_toString n = (if n < 0 then js ''-'' @ digits (nat (- n)) else digits (nat n))"

text \<open>The number that a string of decimal digits denotes.\<close>

definition undigits :: "jsstring \<Rightarrow> nat" where
  "undigits s = foldl (\<lambda>acc c. 10 * acc + (unat c - 48)) 0 s"

section \<open>Types of the application\<close>

text \<open>
  \<^verbatim>\<open>interface Todo { id: string; text: string; completed: boolean; createdAt: string }\<close>
  \<^verbatim>\<open>type Filter = 'all' | 'active' | 'completed'\<close>
  \<^verbatim>\<open>type Theme = 'light' | 'dark'\<close>
\<close>

record Todo =
  id_todo :: jsstring
  text_todo :: jsstring
  completed :: bool
  createdAt :: jsstring

datatype Filter = Filter_all | Filter_active | Filter_completed

datatype Theme = Light | Dark

text \<open>
  The four \<open>useState\<close> cells of the \<open>App\<close> component. An action of the component is a
  function from the state of one render to the state of the next.
\<close>

record App =
  todos :: "Todo list"
  theme :: Theme
  filter_mode :: Filter
  inputValue :: jsstring

section \<open>Exceptions and the console\<close>

text \<open>
  A JavaScript expression either completes normally with a value or throws. The exceptions
  the platform can throw inside the storage helpers are listed; \<open>console.error\<close> appends
  its message and the caught exception to the console.
  \<open>try_catch body handler\<close> is \<^verbatim>\<open>try { body } catch (err) { handler }\<close> for a body that
  does not write to the console itself.
\<close>

datatype exn = SecurityError | QuotaExceededError | SyntaxError

datatype 'a completion = Normal 'a | Throw exn

type_synonym console = "(string \<times> exn) list"

definition try_catch ::
  "'a completion \<Rightarrow> (exn \<Rightarrow> 'a completion \<times> console) \<Rightarrow> 'a completion \<times> console" where
  "try_catch body handler = (case body of Normal v \<Rightarrow> (Normal v, []) | Throw err \<Rightarrow> handler err)"

section \<open>localStorage\<close>

text \<open>
  The origin's key-value store. \<open>denied\<close> holds when access to the store is blocked (every
  access throws a SecurityError), and \<open>full k v\<close> when the store refuses to write \<open>v\<close>
  under \<open>k\<close> for lack of space (a QuotaExceededError). \<open>getItem\<close> returns \<open>null\<close>, here
  \<open>None\<close>, for a key that is not stored.
\<close>

record Storage =
  items :: "jsstring \<rightharpoonup> jsstring"
  denied :: bool
  full :: "jsstring \<Rightarrow> jsstring \<Rightarrow> bool"

definition getItem :: "Storage \<Rightarrow> jsstring \<Rightarrow> jsstring option completion" where
  "getItem st k = (if denied st then Throw SecurityError else Normal (items st k))"

definition setItem :: "Storage \<Rightarrow> jsstring \<Rightarrow> jsstring \<Rightarrow> Storage completion" where
  "setItem st k v =
     (if denied st then Throw SecurityError
      else if full st k v then Throw QuotaExceededError
      else Normal (st\<lparr>items := (items st)(k \<mapsto> v)\<rparr>))"

definition STORAGE_ITEMS :: jsstring where
  "STORAGE_ITEMS = js ''darktodo_items''"

definition STORAGE_THEME :: jsstring where
  "STORAGE_THEME = js ''darktodo_theme''"

section \<open>JSON\<close>

text \<open>
  The values \<open>JSON.parse\<close> can return. A number is kept as the numeral it was read from; no
  function of the application computes with one. The properties of an object are listed in
  the order of their creation, which is the order of enumeration for keys that are not array
  indices.
\<close>

datatype json =
    JNull
  | JBool bool
  | JNumber jsstring
  | JString jsstring
  | JArray "json list"
  | JObject "(jsstring \<times> json) list"

subsection \<open>JSON.stringify on a list of tasks\<close>

text \<open>
  \<open>QuoteJSONString\<close> of ECMAScript: the quotation mark, the backslash and the control
  characters BS, TAB, LF, FF and CR get their two-character escape, every other code unit
  below U+0020 and every surrogate that is not half of a pair the escape with four lowercase
  hexadecimal digits, and everything else (a surrogate pair too) stands for itself.
\<close>

definition hexdigit :: "nat \<Rightarrow> 16 word" where
  "hexdigit n = (if n < 10 then of_nat (48 + n) else of_nat (87 + n))"

definition hex4 :: "16 word \<Rightarrow> jsstring" where
  "hex4 c =
     [hexdigit (unat c div 4096), hexdigit (unat c div 256 mod 16),
      hexdigit (unat c div 16 mod 16), hexdigit (unat c mod 16)]"

definition is_high_surrogate :: "16 word \<Rightarrow> bool" where
  "is_high_surrogate c \<longleftrightarrow> 0xD800 \<le> c \<and> c \<le> 0xDBFF"

definition is_low_surrogate :: "16 word \<Rightarrow> bool" where
  "is_low_surrogate c \<longleftrightarrow> 0xDC00 \<le> c \<and> c \<le> 0xDFFF"

definition escape :: "16 word \<Rightarrow> 16 word option" where
  "escape c =
     (if c = 0x08 then Some 0x62
      else if c = 0x09 then Some 0x74
      else if c = 0x0A then Some 0x6E
      else if c = 0x0C then Some 0x66
      else if c = 0x0D then Some 0x72
      else if c = 0x22 then Some 0x22
      else if c = 0x5C then Some 0x5C
      else None)"

definition quote_unit :: "16 word \<Rightarrow> jsstring" where
  "quote_unit c =
     (case escape c of
        Some e \<Rightarrow> [0x5C, e]
      | None \<Rightarrow>
          if c < 0x20 \<or> is_high_surrogate c \<or> is_low_surrogate c then [0x5C, 0x75] @ hex4 c
          else [c])"

fun quote_units :: "jsstring \<Rightarrow> jsstring" where
  "quote_units [] = []"
| "quote_units [c] = quote_unit c"
| "quote_units (c # d # ds) =
     (if is_high_surrogate c \<and> is_low_surrogate d then c # d # quote_units ds
      else quote_unit c @ quote_units (d # ds))"

definition QuoteJSONString :: "jsstring \<Rightarrow> jsstring" where
  "QuoteJSONString s = [0x22] @ quote_units s @ [0x22]"

text \<open>
  \<open>JSON.stringify(todos)\<close> is called on a \<open>Todo[]\<close> only, without indentation: the objects
  between brackets, separated by commas, each object its properties between braces. A task
  made by \<open>addTodo\<close> has its properties in the order id, text, completed, createdAt, and the
  spread in \<open>toggleTodo\<close> keeps that order.
\<close>

definition property :: "string \<Rightarrow> jsstring \<Rightarrow> jsstring" where
  "property k v = QuoteJSONString (js k) @ js '':'' @ v"

definition stringify_boolean :: "bool \<Rightarrow> jsstring" where
  "stringify_boolean b = (if b then js ''true'' else js ''false'')"

definition stringify_Todo :: "Todo \<Rightarrow> jsstring" where
  "stringify_Todo t =
     js ''{'' @ property ''id'' (QuoteJSONString (id_todo t))
     @ js '','' @ property ''text'' (QuoteJSONString (text_todo t))
     @ js '','' @ property ''completed'' (stringify_boolean (completed t))
     @ js '','' @ property ''createdAt'' (QuoteJSONString (createdAt t))
     @ js ''}''"

fun join_comma :: "jsstring list \<Rightarrow> jsstring" where
  "join_comma [] = []"
| "join_comma [x] = x"
| "join_comma (x # y # ys) = x @ js '','' @ join_comma (y # ys)"

definition JSON_stringify :: "Todo list \<Rightarrow> jsstring" where
  "JSON_stringify ts = js ''['' @ join_comma (map stringify_Todo ts) @ js '']''"

subsection \<open>JSON.parse\<close>

text \<open>
  The lexical grammar of JSON first. White space is TAB, LF, CR and SP. A string runs to
  the next quotation mark that is not escaped; it may hold any code unit from U+0020 on
  except the quotation mark and the backslash, and the escapes of the grammar, the four
  hexadecimal digits in either case. \<open>lex_string\<close> reads the text after the opening quotation
  mark and returns the string with the number of code units it read, the closing mark
  included.
\<close>

datatype token =
    LBrace | RBrace | LBracket | RBracket | Colon | Comma
  | TString jsstring | TNumber jsstring | TTrue | TFalse | TNull

definition json_ws :: "16 word \<Rightarrow> bool" where
  "json_ws c \<longleftrightarrow> c = 0x09 \<or> c = 0x0A \<or> c = 0x0D \<or> c = 0x20"

definition is_digit :: "16 word \<Rightarrow> bool" where
  "is_digit c \<longleftrightarrow> 0x30 \<le> c \<and> c \<le> 0x39"

definition unhex :: "16 word \<Rightarrow> nat option" where
  "unhex c =
     (if 0x30 \<le> c \<and> c \<le> 0x39 then Some (unat c - 48)
      else if 0x61 \<le> c \<and> c \<le> 0x66 then Some (unat c - 87)
      else if 0x41 \<le> c \<and> c \<le> 0x46 then Some (unat c - 55)
      else None)"

fun unhex4 :: "jsstring \<Rightarrow> 16 word option" where
  "unhex4 [a, b, c, d] =
     (case (unhex a, unhex b, unhex c, unhex d) of
        (Some w, Some x, Some y, Some z) \<Rightarrow> Some (of_nat (((w * 16 + x) * 16 + y) * 16 + z))
      | _ \<Rightarrow> None)"
| "unhex4 _ = None"

definition unescape :: "16 word \<Rightarrow> 16 word option" where
  "unescape e =
     (if e = 0x22 then Some 0x22
      else if e = 0x5C then Some 0x5C
      else if e = 0x2F then Some 0x2F
      else if e = 0x62 then Some 0x08
      else if e = 0x66 then Some 0x0C
      else if e = 0x6E then Some 0x0A
      else if e = 0x72 then Some 0x0D
      else if e = 0x74 then Some 0x09
      else None)"

definition consumed :: "16 word \<Rightarrow> nat \<Rightarrow> (jsstring \<times> nat) option \<Rightarrow> (jsstring \<times> nat) option" where
  "consumed c k r = map_option (\<lambda>(s, n). (c # s, k + n)) r"

fun lex_string :: "jsstring \<Rightarrow> (jsstring \<times> nat) option" where
  "lex_string [] = None"
| "lex_string (c # cs) =
     (if c = 0x22 then Some ([], 1)
      else if c = 0x5C then
        (case cs of
           [] \<Rightarrow> None
         | e # es \<Rightarrow>
             if e = 0x75 then
               (case unhex4 (take 4 es) of
                  None \<Rightarrow> None
                | Some w \<Rightarrow> consumed w 6 (lex_string (drop 4 es)))
             else
               (case unescape e of
                  None \<Rightarrow> None
                | Some w \<Rightarrow> consumed w 2 (lex_string es)))
      else if c < 0x20 then None
      else consumed c 1 (lex_string cs))"

text \<open>
  A number is an optional minus sign, an integer part without a leading zero, an optional
  fraction and an optional exponent. Each part returns what it read and the text after it;
  \<open>lex_number\<close> returns the numeral.
\<close>

definition lex_digits :: "jsstring \<Rightarrow> (jsstring \<times> jsstring) option" where
  "lex_digits s =
     (if takeWhile is_digit s = [] then None
      else Some (takeWhile is_digit s, dropWhile is_digit s))"

definition lex_int :: "jsstring \<Rightarrow> (jsstring \<times> jsstring) option" where
  "lex_int s =
     (case s of
        [] \<Rightarrow> None
      | c # cs \<Rightarrow>
          if c = 0x30 then Some ([c], cs)
          else if is_digit c then Some (c # takeWhile is_digit cs, dropWhile is_digit cs)
          else None)"

definition lex_frac :: "jsstring \<Rightarrow> (jsstring \<times> jsstring) option" where
  "lex_frac s =
     (case s of
        [] \<Rightarrow> Some ([], s)
      | c # cs \<Rightarrow>
          if c = 0x2E then
            (case lex_digits cs of None \<Rightarrow> None | Some (ds, r) \<Rightarrow> Some (c # ds, r))
          else Some ([], s))"

definition lex_sign :: "jsstring \<Rightarrow> jsstring \<times> jsstring" where
  "lex_sign s =
     (case s of
        [] \<Rightarrow> ([], s)
      | c # cs \<Rightarrow> if c = 0x2B \<or> c = 0x2D then ([c], cs) else ([], s))"

definition lex_exp :: "jsstring \<Rightarrow> (jsstring \<times> jsstring) option" where
  "lex_exp s =
     (case s of
        [] \<Rightarrow> Some ([], s)
      | c # cs \<Rightarrow>
          if c = 0x65 \<or> c = 0x45 then
            (case lex_digits (snd (lex_sign cs)) of
               None \<Rightarrow> None
             | Some (ds, r) \<Rightarrow> Some (c # fst (lex_sign cs) @ ds, r))
          else Some ([], s))"

definition lex_minus :: "jsstring \<Rightarrow> jsstring \<times> jsstring" where
  "lex_minus s =
     (case s of
        [] \<Rightarrow> ([], s)
      | c # cs \<Rightarrow> if c = 0x2D then ([c], cs) else ([], s))"

definition lex_number :: "jsstring \<Rightarrow> jsstring option" where
  "lex_number s =
     (case lex_int (snd (lex_minus s)) of
        None \<Rightarrow> None
      | Some (ip, s2) \<Rightarrow>
          (case lex_frac s2 of
             None \<Rightarrow> None
           | Some (fp, s3) \<Rightarrow>
               (case lex_exp s3 of
                  None \<Rightarrow> None
                | Some (ep, s4) \<Rightarrow> Some (fst (lex_minus s) @ ip @ fp @ ep))))"

text \<open>
  The tokens of a text, or \<open>None\<close> where no token starts. After a string the text goes on
  behind the code units the string took, after a number behind its numeral.
\<close>

fun tokenize :: "jsstring \<Rightarrow> token list option" where
  "tokenize [] = Some []"
| "tokenize (c # cs) =
     (if json_ws c then tokenize cs
      else if c = 0x7B then map_option ((#) LBrace) (tokenize cs)
      else if c = 0x7D then map_option ((#) RBrace) (tokenize cs)
      else if c = 0x5B then map_option ((#) LBracket) (tokenize cs)
      else if c = 0x5D then map_option ((#) RBracket) (tokenize cs)
      else if c = 0x3A then map_option ((#) Colon) (tokenize cs)
      else if c = 0x2C then map_option ((#) Comma) (tokenize cs)
      else if c = 0x22 then
        (case lex_string cs of
           None \<Rightarrow> None
         | Some (str, n) \<Rightarrow> map_option ((#) (TString str)) (tokenize (drop n cs)))
      else if c = 0x2D \<or> is_digit c then
        (case lex_number (c # cs) of
           None \<Rightarrow> None
         | Some lx \<Rightarrow> map_option ((#) (TNumber lx)) (tokenize (drop (length lx - 1) cs)))
      else if take 4 (c # cs) = js ''true'' then map_option ((#) TTrue) (tokenize (drop 3 cs))
      else if take 5 (c # cs) = js ''false'' then map_option ((#) TFalse) (tokenize (drop 4 cs))
      else if take 4 (c # cs) = js ''null'' then map_option ((#) TNull) (tokenize (drop 3 cs))
      else None)"

text \<open>
  The syntactic grammar, read token by token. The stack holds the arrays and objects that are
  still open, the innermost first, an object with the key whose value is being read. A value
  that is complete goes into the innermost open array or object, or is the result when none
  is open. A key that occurs again in an object overwrites the value and keeps its place.
\<close>

datatype frame = InArray "json list" | InObject "(jsstring \<times> json) list" "jsstring option"

datatype expect =
    ExpectValue | ExpectValueOrEnd | ExpectKeyOrEnd | ExpectKey | ExpectColon | AfterValue
  | Done json

fun put :: "jsstring \<Rightarrow> json \<Rightarrow> (jsstring \<times> json) list \<Rightarrow> (jsstring \<times> json) list" where
  "put k v [] = [(k, v)]"
| "put k v ((k', v') # kvs) = (if k' = k then (k, v) # kvs else (k', v') # put k v kvs)"

fun deliver :: "json \<Rightarrow> frame list \<Rightarrow> (expect \<times> frame list) option" where
  "deliver v [] = Some (Done v, [])"
| "deliver v (InArray vs # stack) = Some (AfterValue, InArray (vs @ [v]) # stack)"
| "deliver v (InObject kvs (Some k) # stack) = Some (AfterValue, InObject (put k v kvs) None # stack)"
| "deliver v (InObject kvs None # stack) = None"

definition expects_value :: "expect \<Rightarrow> bool" where
  "expects_value e \<longleftrightarrow> e = ExpectValue \<or> e = ExpectValueOrEnd"

fun step :: "expect \<Rightarrow> frame list \<Rightarrow> token \<Rightarrow> (expect \<times> frame list) option" where
  "step e stack (TString s) =
     (if expects_value e then deliver (JString s) stack
      else if e = ExpectKey \<or> e = ExpectKeyOrEnd then
        (case stack of
           InObject kvs None # stack' \<Rightarrow> Some (ExpectColon, InObject kvs (Some s) # stack')
         | _ \<Rightarrow> None)
      else None)"
| "step e stack (TNumber n) = (if expects_value e then deliver (JNumber n) stack else None)"
| "step e stack TTrue = (if expects_value e then deliver (JBool True) stack else None)"
| "step e stack TFalse = (if expects_value e then deliver (JBool False) stack else None)"
| "step e stack TNull = (if expects_value e then deliver JNull stack else None)"
| "step e stack LBracket =
     (if expects_value e then Some (ExpectValueOrEnd, InArray [] # stack) else None)"
| "step e stack LBrace =
     (if expects_value e then Some (ExpectKeyOrEnd, InObject [] None # stack) else None)"
| "step e stack RBracket =
     (if e = ExpectValueOrEnd \<or> e = AfterValue then
        (case stack of InArray vs # stack' \<Rightarrow> deliver (JArray vs) stack' | _ \<Rightarrow> None)
      else None)"
| "step e stack RBrace =
     (if e = ExpectKeyOrEnd \<or> e = AfterValue then
        (case stack of InObject kvs None # stack' \<Rightarrow> deliver (JObject kvs) stack' | _ \<Rightarrow> None)
      else None)"
| "step e stack Comma =
     (if e = AfterValue then
        (case stack of
           InArray vs # stack' \<Rightarrow> Some (ExpectValue, stack)
         | InObject kvs None # stack' \<Rightarrow> Some (ExpectKey, stack)
         | _ \<Rightarrow> None)
      else None)"
| "step e stack Colon = (if e = ExpectColon then Some (ExpectValue, stack) else None)"

fun run :: "expect \<Rightarrow> frame list \<Rightarrow> token list \<Rightarrow> json option" where
  "run e stack [] = (case e of Done v \<Rightarrow> Some v | _ \<Rightarrow> None)"
| "run e stack (t # ts) =
     (case step e stack t of None \<Rightarrow> None | Some (e', stack') \<Rightarrow> run e' stack' ts)"

text \<open>\<open>JSON.parse\<close> returns the value of a text of the grammar and throws a SyntaxError otherwise.\<close>

definition JSON_parse :: "jsstring \<Rightarrow> json completion" where
  "JSON_parse text =
     (case tokenize text of
        None \<Rightarrow> Throw SyntaxError
      | Some ts \<Rightarrow>
          (case run ExpectValue [] ts of
             None \<Rightarrow> Throw SyntaxError
           | Some v \<Rightarrow> Normal v))"

subsection \<open>Tasks as values\<close>

text \<open>
  The object of a task, and the reading of a value as a \<open>Todo[]\<close>: an array of objects whose
  properties id, text and createdAt are strings and whose property completed is a boolean.
\<close>

definition Todo_value :: "Todo \<Rightarrow> json" where
  "Todo_value t =
     JObject [(js ''id'', JString (id_todo t)), (js ''text'', JString (text_todo t)),
              (js ''completed'', JBool (completed t)), (js ''createdAt'', JString (createdAt t))]"

definition as_Todo :: "json \<Rightarrow> Todo option" where
  "as_Todo v =
     (case v of
        JObject kvs \<Rightarrow>
          (case (map_of kvs (js ''id''), map_of kvs (js ''text''),
                 map_of kvs (js ''completed''), map_of kvs (js ''createdAt'')) of
             (Some (JString i), Some (JString t), Some (JBool c), Some (JString d)) \<Rightarrow>
               Some \<lparr>id_todo = i, text_todo = t, completed = c, createdAt = d\<rparr>
           | _ \<Rightarrow> None)
      | _ \<Rightarrow> None)"

definition as_Todos :: "json \<Rightarrow> Todo list option" where
  "as_Todos v =
     (case v of
        JArray vs \<Rightarrow>
          (if list_all (\<lambda>x. as_Todo x \<noteq> None) vs then Some (map (the \<circ> as_Todo) vs) else None)
      | _ \<Rightarrow> None)"

text \<open>The tokens \<open>JSON_stringify\<close> writes for a task, and for the elements of an array of tasks.\<close>

definition Todo_tokens :: "Todo \<Rightarrow> token list" where
  "Todo_tokens t =
     [LBrace, TString (js ''id''), Colon, TString (id_todo t), Comma,
      TString (js ''text''), Colon, TString (text_todo t), Comma,
      TString (js ''completed''), Colon, (if completed t then TTrue else TFalse), Comma,
      TString (js ''createdAt''), Colon, TString (createdAt t), RBrace]"

fun elements_tokens :: "Todo list \<Rightarrow> token list" where
  "elements_tokens [] = []"
| "elements_tokens [x] = Todo_tokens x"
| "elements_tokens (x # y # ys) = Todo_tokens x @ Comma # elements_tokens (y # ys)"

section \<open>The storage helpers of the tasks\<close>

text \<open>
  \<^verbatim>\<open>
  function loadTodos(): Todo[] {
    try {
      const raw = localStorage.getItem(STORAGE_ITEMS)
      if (!raw) return []
      return JSON.parse(raw) as Todo[]
    } catch (err) {
      console.error('Failed to load todos from localStorage', err)
      return []
    }
  }
  function saveTodos(todos: Todo[]): void {
    try {
      localStorage.setItem(STORAGE_ITEMS, JSON.stringify(todos))
    } catch (err) {
      console.error('Failed to save todos to localStorage', err)
    }
  }
  \<close>
  \<open>!raw\<close> holds for \<open>null\<close> and for the empty string. The cast \<open>as Todo[]\<close> checks nothing at
  run time, so \<open>loadTodos\<close> returns whatever value \<open>JSON.parse\<close> returned. Each helper gives
  its completion and what it wrote to the console; \<open>saveTodos\<close> completes with the store as
  it is afterwards.
\<close>

definition loadTodos :: "Storage \<Rightarrow> json completion \<times> console" where
  "loadTodos st =
     try_catch
       (case getItem st STORAGE_ITEMS of
          Throw err \<Rightarrow> Throw err
        | Normal raw \<Rightarrow>
            (case raw of
               None \<Rightarrow> Normal (JArray [])
             | Some text \<Rightarrow> if text = [] then Normal (JArray []) else JSON_parse text))
       (\<lambda>err. (Normal (JArray []), [(''Failed to load todos from localStorage'', err)]))"

definition saveTodos :: "Todo list \<Rightarrow> Storage \<Rightarrow> Storage completion \<times> console" where
  "saveTodos ts st =
     try_catch (setItem st STORAGE_ITEMS (JSON_stringify ts))
       (\<lambda>err. (Normal st, [(''Failed to save todos to localStorage'', err)]))"

section \<open>The storage helpers of the theme\<close>

text \<open>
  \<^verbatim>\<open>
  function loadTheme(): Theme {
    try {
      const raw = localStorage.getItem(STORAGE_THEME)
      if (raw === 'dark' || raw === 'light') return raw
      return 'light'
    } catch (err) {
      console.error('Failed to load theme from localStorage', err)
      return 'light'
    }
  }
  function saveTheme(theme: Theme): void {
    try {
      localStorage.setItem(STORAGE_THEME, theme)
    } catch (err) {
      console.error('Failed to save theme to localStorage', err)
    }
  }
  \<close>
  A value of type \<open>Theme\<close> is one of the two string literals; \<open>Theme_literal\<close> is the string.
  \<open>return raw\<close> returns the theme whose literal \<open>raw\<close> is.
\<close>

definition Theme_literal :: "Theme \<Rightarrow> jsstring" where
  "Theme_literal th = (case th of Light \<Rightarrow> js ''light'' | Dark \<Rightarrow> js ''dark'')"

definition loadTheme :: "Storage \<Rightarrow> Theme completion \<times> console" where
  "loadTheme st =
     try_catch
       (case getItem st STORAGE_THEME of
          Throw err \<Rightarrow> Throw err
        | Normal raw \<Rightarrow>
            if raw = Some (js ''dark'') then Normal Dark
            else if raw = Some (js ''light'') then Normal Light
            else Normal Light)
       (\<lambda>err. (Normal Light, [(''Failed to load theme from localStorage'', err)]))"

definition saveTheme :: "Theme \<Rightarrow> Storage \<Rightarrow> Storage completion \<times> console" where
  "saveTheme th st =
     try_catch (setItem st STORAGE_THEME (Theme_literal th))
       (\<lambda>err. (Normal st, [(''Failed to save theme to localStorage'', err)]))"

section \<open>Identifiers\<close>

text \<open>
  What an action reads from the platform: the clock (\<open>Date.now()\<close>, and the ISO string of
  \<open>new Date()\<close>) and the random source (\<open>Math.random().toString(36)\<close>, a string such as
  \<open>0.4fzyo82mvyr\<close>). \<open>generateId\<close> joins the clock value, a hyphen and the characters 2 to 8
  of the random string.
\<close>

record Env =
  Date_now :: int
  Math_random_toString36 :: jsstring
  Date_toISOString :: jsstring

definition generateId :: "Env \<Rightarrow> jsstring" where
  "generateId env = Number_toString (Date_now env) @ js ''-'' @ slice 2 9 (Math_random_toString36 env)"

section \<open>Actions on the task collection\<close>

text \<open>
  \<^verbatim>\<open>
  const text = inputValue.trim()
  if (!text) return
  const newTodo: Todo = { id: generateId(), text, completed: false, createdAt: new Date().toISOString() }
  setTodos(prev => [newTodo, ...prev])
  setInputValue('')
  \<close>
  A string is falsy exactly when it is empty.
\<close>

definition addTodo :: "Env \<Rightarrow> App \<Rightarrow> App" where
  "addTodo env s =
     (let text = trim (inputValue s) in
      if text = [] then s
      else s\<lparr>todos := \<lparr>id_todo = generateId env, text_todo = text, completed = False,
                          createdAt = Date_toISOString env\<rparr> # todos s,
              inputValue := []\<rparr>)"

text \<open>
  \<^verbatim>\<open>setTodos(prev => prev.map(t => t.id === id ? { ...t, completed: !t.completed } : t))\<close>
\<close>

definition toggleTodo :: "jsstring \<Rightarrow> App \<Rightarrow> App" where
  "toggleTodo i s =
     s\<lparr>todos := map (\<lambda>t. if id_todo t = i then t\<lparr>completed := \<not> completed t\<rparr> else t) (todos s)\<rparr>"

text \<open>\<^verbatim>\<open>setTodos(prev => prev.filter(t => t.id !== id))\<close>\<close>

definition deleteTodo :: "jsstring \<Rightarrow> App \<Rightarrow> App" where
  "deleteTodo i s = s\<lparr>todos := filter (\<lambda>t. id_todo t \<noteq> i) (todos s)\<rparr>"

text \<open>\<^verbatim>\<open>setTodos(prev => prev.filter(t => !t.completed))\<close>\<close>

definition clearCompleted :: "App \<Rightarrow> App" where
  "clearCompleted s = s\<lparr>todos := filter (\<lambda>t. \<not> completed t) (todos s)\<rparr>"

text \<open>\<^verbatim>\<open>setTheme(prev => prev === 'dark' ? 'light' : 'dark')\<close>\<close>

definition toggleTheme :: "App \<Rightarrow> App" where
  "toggleTheme s = s\<lparr>theme := (if theme s = Dark then Light else Dark)\<rparr>"

section \<open>Derived state\<close>

text \<open>
  \<^verbatim>\<open>
  const filteredTodos = todos.filter(t => {
    if (filter === 'active') return !t.completed
    if (filter === 'completed') return t.completed
    return true
  })
  const activeCount = todos.filter(t => !t.completed).length
  const completedCount = todos.filter(t => t.completed).length
  \<close>
\<close>

definition filteredTodos :: "App \<Rightarrow> Todo list" where
  "filteredTodos s =
     filter (\<lambda>t. if filter_mode s = Filter_active then \<not> completed t
                 else if filter_mode s = Filter_completed then completed t
                 else True) (todos s)"

definition activeCount :: "App \<Rightarrow> nat" where
  "activeCount s = length (filter (\<lambda>t. \<not> completed t) (todos s))"

definition completedCount :: "App \<Rightarrow> nat" where
  "completedCount s = length (filter (\<lambda>t. completed t) (todos s))"

section \<open>Example values\<close>

definition todo_a :: Todo where
  "todo_a = \<lparr>id_todo = js ''1-a'', text_todo = js ''A'', completed = False, createdAt = js ''t1''\<rparr>"

definition todo_b :: Todo where
  "todo_b = \<lparr>id_todo = js ''2-b'', text_todo = js ''B'', completed = True, createdAt = js ''t2''\<rparr>"

definition app_ab :: App where
  "app_ab = \<lparr>todos = [todo_b, todo_a], theme = Light, filter_mode = Filter_all, inputValue = []\<rparr>"

definition env_1 :: Env where
  "env_1 = \<lparr>Date_now = 1700000000000, Math_random_toString36 = js ''0.4fzyo82mvyr'',
            Date_toISOString = js ''2023-11-14T22:13:20.000Z''\<rparr>"

definition app_x :: App where
  "app_x = \<lparr>todos = [], theme = Light, filter_mode = Filter_all, inputValue = js ''X''\<rparr>"

definition app_clash :: App where
  "app_clash = \<lparr>todos = [\<lparr>id_todo = js ''1700000000000-4fzyo82'', text_todo = js ''A'',
                            completed = False, createdAt = js ''2023-11-14T22:13:20.000Z''\<rparr>],
                 theme = Light, filter_mode = Filter_all, inputValue = js '' B ''\<rparr>"

definition store_items :: "jsstring \<Rightarrow> Storage" where
  "store_items raw = \<lparr>items = Map.empty(STORAGE_ITEMS \<mapsto> raw), denied = False, full = (\<lambda>k v. False)\<rparr>"

definition store_purple :: Storage where
  "store_purple = \<lparr>items = Map.empty(STORAGE_THEME \<mapsto> js ''purple''), denied = False, full = (\<lambda>k v. False)\<rparr>"

section \<open>Facts about strings\<close>

lemma unat_of_char: "unat (of_char c :: 16 word) = of_char c"
proof -
  have "(of_char c :: nat) < 256"
    by (rule nat_of_char_less_256)
  moreover have "(256 :: nat) \<le> 2 ^ LENGTH(16)"
    by simp
  ultimately have "(of_char c :: nat) < 2 ^ LENGTH(16)"
    by (rule less_le_trans)
  then have "(of_char c :: nat) mod 2 ^ LENGTH(16) = of_char c"
    by (rule mod_less)
  moreover have "(of_char c :: 16 word) = of_nat (of_char c)"
    by (simp only: of_nat_of_char)
  ultimately show ?thesis
    by (simp only: unat_of_nat)
qed

lemma js_eq_iff [simp]: "js a = js b \<longleftrightarrow> a = b"
proof -
  have "inj (of_char :: char \<Rightarrow> 16 word)"
  proof (rule injI)
    fix x y :: char
    assume "(of_char x :: 16 word) = of_char y"
    then have "unat (of_char x :: 16 word) = unat (of_char y :: 16 word)"
      by simp
    then have "(of_char x :: nat) = of_char y"
      by (simp only: unat_of_char)
    then show "x = y"
      by simp
  qed
  then show ?thesis
    by (simp add: js_def inj_map_eq_map)
qed

lemma js_Nil_iff [simp]: "js a = [] \<longleftrightarrow> a = []"
  by (simp add: js_def)

lemma unat_of_nat_16: "n < 65536 \<Longrightarrow> unat (of_nat n :: 16 word) = n"
  by (simp add: unat_of_nat)

text \<open>
  The decimal numeral of a number determines the number, and holds no hyphen: two identifiers
  that \<open>generateId\<close> makes at different clock values differ.
\<close>

lemma unat_digit: "d < 10 \<Longrightarrow> unat (of_nat (48 + d) :: 16 word) = 48 + d"
  by (intro unat_of_nat_16) simp

lemma undigits_digits: "undigits (digits n) = n"
proof (induction n rule: digits.induct)
  case (1 n)
  show ?case
  proof (cases "n < 10")
    case True
    then show ?thesis
      by (simp add: digits.simps [of n] undigits_def unat_digit del: of_nat_add)
  next
    case False
    with 1 have "undigits (digits (n div 10)) = n div 10"
      by simp
    with False show ?thesis
      by (simp add: digits.simps [of n] undigits_def unat_digit del: of_nat_add)
  qed
qed

lemma digits_inj: "digits m = digits n \<Longrightarrow> m = n"
proof -
  assume "digits m = digits n"
  then have "undigits (digits m) = undigits (digits n)"
    by (rule arg_cong)
  then show "m = n"
    by (simp only: undigits_digits)
qed

lemma digits_no_hyphen: "0x2D \<notin> set (digits n)"
proof (induction n rule: digits.induct)
  case (1 n)
  have d: "(of_nat (48 + k) :: 16 word) \<noteq> 0x2D" if "k < 10" for k
  proof
    assume a: "(of_nat (48 + k) :: 16 word) = 0x2D"
    have "unat (of_nat (48 + k) :: 16 word) = 48 + k"
      using that by (rule unat_digit)
    then have "unat (0x2D :: 16 word) = 48 + k"
      by (simp only: a)
    then show False
      by simp
  qed
  show ?case
  proof (cases "n < 10")
    case True
    then show ?thesis
      using d [of n] by (simp add: digits.simps [of n] del: of_nat_add)
  next
    case False
    with 1 have "0x2D \<notin> set (digits (n div 10))"
      by simp
    with False show ?thesis
      using d [of "n mod 10"] by (simp add: digits.simps [of n] del: of_nat_add)
  qed
qed

lemma digits_nonempty: "digits n \<noteq> []"
  by (simp add: digits.simps [of n])

lemma hyphen_split:
  "0x2D \<notin> set xs \<Longrightarrow> 0x2D \<notin> set ys \<Longrightarrow> xs @ 0x2D # s = ys @ 0x2D # t \<Longrightarrow> xs = (ys :: jsstring)"
proof -
  assume x: "0x2D \<notin> set xs" and y: "0x2D \<notin> set ys" and e: "xs @ 0x2D # s = ys @ 0x2D # t"
  have "takeWhile (\<lambda>c. c \<noteq> 0x2D) (xs @ 0x2D # s) = xs"
    using x by (auto simp: takeWhile_tail)
  moreover have "takeWhile (\<lambda>c. c \<noteq> 0x2D) (ys @ 0x2D # t) = ys"
    using y by (auto simp: takeWhile_tail)
  ultimately show ?thesis
    using e by simp
qed

lemma hd_conflict: "xs \<noteq> [] \<Longrightarrow> hd xs \<noteq> c \<Longrightarrow> c # a \<noteq> xs @ b"
  by (cases xs) auto

lemma digits_not_hyphen_first: "0x2D # a \<noteq> digits k @ b"
proof (rule hd_conflict)
  show "digits k \<noteq> []"
    by (rule digits_nonempty)
  show "hd (digits k) \<noteq> 0x2D"
    using digits_no_hyphen [of k] digits_nonempty [of k] by (cases "digits k") auto
qed

lemma Number_toString_inj:
  "Number_toString m @ 0x2D # s = Number_toString n @ 0x2D # t \<Longrightarrow> m = n"
proof -
  assume e: "Number_toString m @ 0x2D # s = Number_toString n @ 0x2D # t"
  have neg: "Number_toString k = 0x2D # digits (nat (- k))" if "k < 0" for k
    using that by (simp add: Number_toString_def js_def)
  have pos: "Number_toString k = digits (nat k)" if "\<not> k < 0" for k
    using that by (simp add: Number_toString_def)
  show ?thesis
  proof (cases "m < 0")
    case mneg: True
    show ?thesis
    proof (cases "n < 0")
      case True
      from e have "digits (nat (- m)) @ 0x2D # s = digits (nat (- n)) @ 0x2D # t"
        by (simp only: neg [OF mneg] neg [OF True] append_Cons list.inject)
      then have "digits (nat (- m)) = digits (nat (- n))"
        by (rule hyphen_split [OF digits_no_hyphen digits_no_hyphen])
      then have "nat (- m) = nat (- n)"
        by (rule digits_inj)
      with mneg True show ?thesis by arith
    next
      case False
      from e have "0x2D # (digits (nat (- m)) @ 0x2D # s) = digits (nat n) @ 0x2D # t"
        by (simp only: neg [OF mneg] pos [OF False] append_Cons)
      with digits_not_hyphen_first show ?thesis
        by blast
    qed
  next
    case mpos: False
    show ?thesis
    proof (cases "n < 0")
      case True
      from e have "0x2D # (digits (nat (- n)) @ 0x2D # t) = digits (nat m) @ 0x2D # s"
        by (simp only: neg [OF True] pos [OF mpos] append_Cons)
      with digits_not_hyphen_first show ?thesis
        by blast
    next
      case False
      from e have "digits (nat m) @ 0x2D # s = digits (nat n) @ 0x2D # t"
        by (simp only: pos [OF mpos] pos [OF False])
      then have "digits (nat m) = digits (nat n)"
        by (rule hyphen_split [OF digits_no_hyphen digits_no_hyphen])
      then have "nat m = nat n"
        by (rule digits_inj)
      with mpos False show ?thesis by arith
    qed
  qed
qed

lemma generateId_clock: "generateId e1 = generateId e2 \<Longrightarrow> Date_now e1 = Date_now e2"
proof (rule Number_toString_inj)
  assume "generateId e1 = generateId e2"
  then show "Number_toString (Date_now e1) @ 0x2D # slice 2 9 (Math_random_toString36 e1)
      = Number_toString (Date_now e2) @ 0x2D # slice 2 9 (Math_random_toString36 e2)"
    by (simp add: generateId_def js_def)
qed

section \<open>Adding a task\<close>

text \<open>
  Claim C2, as stated, fails where it calls the new id fresh: \<open>generateId\<close> never looks at
  the collection. With the clock at 1700000000000 and the random string 0.4fzyo82mvyr, adding
  to a collection that already holds a task with the id 1700000000000-4fzyo82 gives two tasks
  with that id.
\<close>

theorem addTodo_id_not_fresh:
  "distinct (map id_todo (todos app_clash))
   \<and> trim (inputValue app_clash) = js ''B''
   \<and> map id_todo (todos (addTodo env_1 app_clash))
        = [js ''1700000000000-4fzyo82'', js ''1700000000000-4fzyo82'']
   \<and> id_todo (hd (todos (addTodo env_1 app_clash))) \<in> id_todo ` set (todos app_clash)
   \<and> \<not> distinct (map id_todo (todos (addTodo env_1 app_clash)))"
  by (simp add: addTodo_def Let_def app_clash_def env_1_def generateId_def Number_toString_def
      digits.simps slice_def trim_def WhiteSpace_def js_def)

text \<open>
  Claim C2, amended. \<open>addTodo\<close> trims the input. When the trimmed text is empty the state
  is returned unchanged. Otherwise the collection grows by exactly one task, put first and
  followed by the old tasks in their order: its id is the string \<open>generateId\<close> builds from
  the clock and the random source, its text the trimmed input, \<open>completed\<close> false and
  \<open>createdAt\<close> the current time. The id is fresh, and the ids of the collection stay pairwise
  distinct, whenever no task of the collection already carries that string; an identifier
  made at another clock value is never that string.
\<close>

theorem addTodo_prepends:
  "(trim (inputValue s) = [] \<longrightarrow> addTodo env s = s)
   \<and> (trim (inputValue s) \<noteq> [] \<longrightarrow>
        todos (addTodo env s)
          = \<lparr>id_todo = generateId env, text_todo = trim (inputValue s), completed = False,
              createdAt = Date_toISOString env\<rparr> # todos s
      \<and> length (todos (addTodo env s)) = length (todos s) + 1
      \<and> (generateId env \<notin> id_todo ` set (todos s) \<and> distinct (map id_todo (todos s))
            \<longrightarrow> distinct (map id_todo (todos (addTodo env s)))))
   \<and> (\<forall>env'. Date_now env' \<noteq> Date_now env \<longrightarrow> generateId env' \<noteq> generateId env)"
proof -
  have "\<forall>env'. Date_now env' \<noteq> Date_now env \<longrightarrow> generateId env' \<noteq> generateId env"
    using generateId_clock by blast
  then show ?thesis
    by (simp add: addTodo_def Let_def)
qed

theorem addTodo_prepends_witness:
  "addTodo env_1 (app_ab\<lparr>inputValue := js ''   ''\<rparr>) = app_ab\<lparr>inputValue := js ''   ''\<rparr>
   \<and> todos (addTodo env_1 (app_ab\<lparr>inputValue := js '' Buy groceries ''\<rparr>))
       = \<lparr>id_todo = js ''1700000000000-4fzyo82'', text_todo = js ''Buy groceries'', completed = False,
           createdAt = js ''2023-11-14T22:13:20.000Z''\<rparr> # [todo_b, todo_a]
   \<and> distinct (map id_todo (todos (addTodo env_1 (app_ab\<lparr>inputValue := js '' Buy groceries ''\<rparr>))))
   \<and> generateId (env_1\<lparr>Date_now := 1700000000001\<rparr>) \<noteq> generateId env_1"
proof -
  have 1: "trim (inputValue (app_ab\<lparr>inputValue := js ''   ''\<rparr>)) = []"
    by (simp add: trim_def WhiteSpace_def js_def)
  have 2: "trim (inputValue (app_ab\<lparr>inputValue := js '' Buy groceries ''\<rparr>)) = js ''Buy groceries''"
    by (simp add: trim_def WhiteSpace_def js_def)
  have 3: "generateId env_1 = js ''1700000000000-4fzyo82''"
    by (simp add: generateId_def env_1_def Number_toString_def digits.simps slice_def js_def)
  have 4: "todos (app_ab\<lparr>inputValue := js '' Buy groceries ''\<rparr>) = [todo_b, todo_a]"
    by (simp add: app_ab_def)
  have 5: "generateId env_1 \<notin> id_todo ` set [todo_b, todo_a] \<and> distinct (map id_todo [todo_b, todo_a])"
    by (simp add: 3 todo_a_def todo_b_def)
  have 6: "Date_toISOString env_1 = js ''2023-11-14T22:13:20.000Z''"
    by (simp add: env_1_def)
  have 7: "Date_now (env_1\<lparr>Date_now := 1700000000001\<rparr>) \<noteq> Date_now env_1"
    by (simp add: env_1_def)
  show ?thesis
    using addTodo_prepends [of "app_ab\<lparr>inputValue := js ''   ''\<rparr>" env_1] 1
      addTodo_prepends [of "app_ab\<lparr>inputValue := js '' Buy groceries ''\<rparr>" env_1] 2 3 4 5 6 7
    by simp
qed

section \<open>Toggling a task\<close>

text \<open>
  Claim C3. For every state of the component and every id, toggling the same id twice gives
  back the state it started from: the task collection is equal to the original one, task by
  task and field by field (every task with that id has its \<open>completed\<close> flag flipped twice).
\<close>

theorem toggleTodo_involution: "toggleTodo i (toggleTodo i s) = s"
proof -
  have "map (\<lambda>t. if id_todo t = i then t\<lparr>completed := \<not> completed t\<rparr> else t)
          (map (\<lambda>t. if id_todo t = i then t\<lparr>completed := \<not> completed t\<rparr> else t) xs) = xs"
    for xs :: "Todo list"
    by (induction xs) simp_all
  then show ?thesis
    by (simp add: toggleTodo_def)
qed

text \<open>
  Claim C4. When no task of the collection has the id, \<open>toggleTodo\<close> and \<open>deleteTodo\<close> both
  return the state unchanged: neither has an error result.
\<close>

theorem unmatched_id_noop:
  "\<forall>t \<in> set (todos s). id_todo t \<noteq> i \<Longrightarrow> toggleTodo i s = s \<and> deleteTodo i s = s"
proof -
  assume h: "\<forall>t \<in> set (todos s). id_todo t \<noteq> i"
  then have "map (\<lambda>t. if id_todo t = i then t\<lparr>completed := \<not> completed t\<rparr> else t) (todos s) = todos s"
    by (simp add: map_idI)
  moreover from h have "filter (\<lambda>t. id_todo t \<noteq> i) (todos s) = todos s"
    by simp
  ultimately show ?thesis
    by (simp add: toggleTodo_def deleteTodo_def)
qed

theorem unmatched_id_noop_witness:
  "toggleTodo (js ''3-c'') app_ab = app_ab \<and> deleteTodo (js ''3-c'') app_ab = app_ab"
proof -
  have "\<forall>t \<in> set (todos app_ab). id_todo t \<noteq> js ''3-c''"
    by (simp add: app_ab_def todo_a_def todo_b_def)
  then show ?thesis
    by (rule unmatched_id_noop)
qed

text \<open>
  Claim C10. Frame of \<open>toggleTodo\<close>: the collection keeps its length and order; at every
  position a task whose id differs from the given one is the same task, and a task with the
  given id keeps its id, text and creation time and has its \<open>completed\<close> flag negated. The
  other cells of the state are untouched.
\<close>

theorem toggleTodo_frame:
  "length (todos (toggleTodo i s)) = length (todos s)
   \<and> (\<forall>k < length (todos s).
         (id_todo (todos s ! k) \<noteq> i \<longrightarrow> todos (toggleTodo i s) ! k = todos s ! k)
       \<and> (id_todo (todos s ! k) = i \<longrightarrow>
            id_todo (todos (toggleTodo i s) ! k) = id_todo (todos s ! k)
          \<and> text_todo (todos (toggleTodo i s) ! k) = text_todo (todos s ! k)
          \<and> createdAt (todos (toggleTodo i s) ! k) = createdAt (todos s ! k)
          \<and> completed (todos (toggleTodo i s) ! k) = (\<not> completed (todos s ! k))))
   \<and> theme (toggleTodo i s) = theme s
   \<and> filter_mode (toggleTodo i s) = filter_mode s
   \<and> inputValue (toggleTodo i s) = inputValue s"
  by (simp add: toggleTodo_def)

theorem toggleTodo_frame_witness:
  "todos (toggleTodo (js ''2-b'') app_ab) ! 1 = todo_a
   \<and> completed (todos (toggleTodo (js ''2-b'') app_ab) ! 0) = False
   \<and> text_todo (todos (toggleTodo (js ''2-b'') app_ab) ! 0) = js ''B''"
  using toggleTodo_frame [of "js ''2-b''" app_ab]
  by (simp add: app_ab_def todo_a_def todo_b_def)

section \<open>The visible tasks and the counters\<close>

text \<open>
  Claim C5. With the filter \<open>all\<close> the visible tasks are the whole collection in order; with
  \<open>active\<close> they are the tasks that are not completed and with \<open>completed\<close> those that are,
  in both cases in the order of the collection (a subsequence of it). Every task of the
  collection is in exactly one of the \<open>active\<close> and \<open>completed\<close> views, and the two views
  together hold each task as often as the collection does.
\<close>

theorem filteredTodos_partition:
  "filteredTodos (s\<lparr>filter_mode := Filter_all\<rparr>) = todos s
   \<and> filteredTodos (s\<lparr>filter_mode := Filter_active\<rparr>) = filter (\<lambda>t. \<not> completed t) (todos s)
   \<and> filteredTodos (s\<lparr>filter_mode := Filter_completed\<rparr>) = filter (\<lambda>t. completed t) (todos s)
   \<and> subseq (filteredTodos s) (todos s)
   \<and> (\<forall>t \<in> set (todos s).
         (t \<in> set (filteredTodos (s\<lparr>filter_mode := Filter_active\<rparr>)))
           \<noteq> (t \<in> set (filteredTodos (s\<lparr>filter_mode := Filter_completed\<rparr>))))
   \<and> mset (filteredTodos (s\<lparr>filter_mode := Filter_active\<rparr>))
         + mset (filteredTodos (s\<lparr>filter_mode := Filter_completed\<rparr>)) = mset (todos s)"
proof -
  have all: "filteredTodos (s\<lparr>filter_mode := Filter_all\<rparr>) = todos s"
    by (simp add: filteredTodos_def)
  have act: "filteredTodos (s\<lparr>filter_mode := Filter_active\<rparr>) = filter (\<lambda>t. \<not> completed t) (todos s)"
    by (simp add: filteredTodos_def)
  have com: "filteredTodos (s\<lparr>filter_mode := Filter_completed\<rparr>) = filter (\<lambda>t. completed t) (todos s)"
    by (simp add: filteredTodos_def)
  have sub: "subseq (filteredTodos s) (todos s)"
    by (simp add: filteredTodos_def)
  have one: "\<forall>t \<in> set (todos s).
         (t \<in> set (filteredTodos (s\<lparr>filter_mode := Filter_active\<rparr>)))
           \<noteq> (t \<in> set (filteredTodos (s\<lparr>filter_mode := Filter_completed\<rparr>)))"
    by (simp add: act com)
  have "mset (filter (\<lambda>t. \<not> completed t) xs) + mset (filter (\<lambda>t. completed t) xs) = mset xs"
    for xs :: "Todo list"
    by (induction xs) simp_all
  then have part: "mset (filteredTodos (s\<lparr>filter_mode := Filter_active\<rparr>))
         + mset (filteredTodos (s\<lparr>filter_mode := Filter_completed\<rparr>)) = mset (todos s)"
    by (simp only: act com)
  from all act com sub one part show ?thesis
    by (intro conjI)
qed

theorem filteredTodos_partition_witness:
  "filteredTodos (app_ab\<lparr>filter_mode := Filter_all\<rparr>) = [todo_b, todo_a]
   \<and> filteredTodos (app_ab\<lparr>filter_mode := Filter_active\<rparr>) = [todo_a]
   \<and> filteredTodos (app_ab\<lparr>filter_mode := Filter_completed\<rparr>) = [todo_b]
   \<and> todo_a \<in> set (filteredTodos (app_ab\<lparr>filter_mode := Filter_active\<rparr>))
   \<and> todo_a \<notin> set (filteredTodos (app_ab\<lparr>filter_mode := Filter_completed\<rparr>))"
  using filteredTodos_partition [of app_ab]
  by (simp add: app_ab_def todo_a_def todo_b_def)

text \<open>
  Claim C6. The number of tasks that are not completed plus the number of completed tasks is
  the length of the collection.
\<close>

theorem counts_sum: "activeCount s + completedCount s = length (todos s)"
proof -
  have "length (filter (\<lambda>t. \<not> completed t) xs) + length (filter (\<lambda>t. completed t) xs) = length xs"
    for xs :: "Todo list"
    by (induction xs) simp_all
  then show ?thesis
    by (simp add: activeCount_def completedCount_def)
qed

section \<open>Clearing the completed tasks\<close>

text \<open>
  Claim C8. \<open>clearCompleted\<close> leaves exactly the tasks that are not completed, in their
  original order and as often as they occurred: the result is a subsequence of the collection,
  holds no completed task and loses no task that is not completed. When no task is completed
  the state is returned unchanged.
\<close>

theorem clearCompleted_keeps_active:
  "todos (clearCompleted s) = filter (\<lambda>t. \<not> completed t) (todos s)
   \<and> subseq (todos (clearCompleted s)) (todos s)
   \<and> (\<forall>t \<in> set (todos (clearCompleted s)). \<not> completed t)
   \<and> (\<forall>t. \<not> completed t \<longrightarrow> count_list (todos (clearCompleted s)) t = count_list (todos s) t)
   \<and> ((\<forall>t \<in> set (todos s). \<not> completed t) \<longrightarrow> clearCompleted s = s)"
proof -
  have eq: "todos (clearCompleted s) = filter (\<lambda>t. \<not> completed t) (todos s)"
    by (simp add: clearCompleted_def)
  have sub: "subseq (todos (clearCompleted s)) (todos s)"
    by (simp add: eq)
  have act: "\<forall>t \<in> set (todos (clearCompleted s)). \<not> completed t"
    by (simp add: eq)
  have "\<not> completed t \<Longrightarrow> count_list (filter (\<lambda>t. \<not> completed t) xs) t = count_list xs t"
    for t :: Todo and xs
    by (induction xs) auto
  then have cnt: "\<forall>t. \<not> completed t \<longrightarrow> count_list (todos (clearCompleted s)) t = count_list (todos s) t"
    by (simp add: eq)
  have same: "(\<forall>t \<in> set (todos s). \<not> completed t) \<longrightarrow> clearCompleted s = s"
    by (simp add: clearCompleted_def)
  from eq sub act cnt same show ?thesis
    by (intro conjI)
qed

theorem clearCompleted_keeps_active_witness:
  "todos (clearCompleted app_ab) = [todo_a]
   \<and> clearCompleted (app_ab\<lparr>todos := [todo_a]\<rparr>) = app_ab\<lparr>todos := [todo_a]\<rparr>
   \<and> activeCount (toggleTodo (js ''1700000000000-4fzyo82'') (addTodo env_1 app_x)) = 0
   \<and> completedCount (toggleTodo (js ''1700000000000-4fzyo82'') (addTodo env_1 app_x)) = 1
   \<and> todos (clearCompleted (toggleTodo (js ''1700000000000-4fzyo82'') (addTodo env_1 app_x))) = []"
proof -
  have x: "todos (toggleTodo (js ''1700000000000-4fzyo82'') (addTodo env_1 app_x))
      = [\<lparr>id_todo = js ''1700000000000-4fzyo82'', text_todo = js ''X'', completed = True,
           createdAt = js ''2023-11-14T22:13:20.000Z''\<rparr>]"
    by (simp add: toggleTodo_def addTodo_def Let_def app_x_def env_1_def generateId_def
        Number_toString_def digits.simps slice_def trim_def WhiteSpace_def js_def)
  have "todos (clearCompleted app_ab) = filter (\<lambda>t. \<not> completed t) (todos app_ab)"
    using clearCompleted_keeps_active [of app_ab] by (rule conjunct1)
  then have a: "todos (clearCompleted app_ab) = [todo_a]"
    by (simp add: app_ab_def todo_a_def todo_b_def)
  have "(\<forall>t \<in> set (todos (app_ab\<lparr>todos := [todo_a]\<rparr>)). \<not> completed t)
      \<longrightarrow> clearCompleted (app_ab\<lparr>todos := [todo_a]\<rparr>) = app_ab\<lparr>todos := [todo_a]\<rparr>"
    using clearCompleted_keeps_active [of "app_ab\<lparr>todos := [todo_a]\<rparr>"] by (elim conjE)
  then have b: "clearCompleted (app_ab\<lparr>todos := [todo_a]\<rparr>) = app_ab\<lparr>todos := [todo_a]\<rparr>"
    by (simp add: todo_a_def)
  have "todos (clearCompleted (toggleTodo (js ''1700000000000-4fzyo82'') (addTodo env_1 app_x)))
      = filter (\<lambda>t. \<not> completed t) (todos (toggleTodo (js ''1700000000000-4fzyo82'') (addTodo env_1 app_x)))"
    using clearCompleted_keeps_active [of "toggleTodo (js ''1700000000000-4fzyo82'') (addTodo env_1 app_x)"]
    by (rule conjunct1)
  then have c: "todos (clearCompleted (toggleTodo (js ''1700000000000-4fzyo82'') (addTodo env_1 app_x))) = []"
    by (simp add: x)
  have d: "activeCount (toggleTodo (js ''1700000000000-4fzyo82'') (addTodo env_1 app_x)) = 0"
    by (simp add: activeCount_def x)
  have e: "completedCount (toggleTodo (js ''1700000000000-4fzyo82'') (addTodo env_1 app_x)) = 1"
    by (simp add: completedCount_def x)
  from a b d e c show ?thesis
    by (intro conjI)
qed

section \<open>Loading the theme\<close>

text \<open>
  Claim C7. \<open>loadTheme\<close> returns \<open>dark\<close> when the stored value is exactly the literal
  \<open>dark\<close>, \<open>light\<close> when it is exactly \<open>light\<close>, and \<open>light\<close> for every other stored value,
  for a key that is absent and when reading the store throws; only in the last case does it
  write to the console. It never throws.
\<close>

theorem loadTheme_cases:
  "(getItem st STORAGE_THEME = Normal (Some (js ''dark'')) \<longrightarrow> loadTheme st = (Normal Dark, []))
   \<and> (getItem st STORAGE_THEME = Normal (Some (js ''light'')) \<longrightarrow> loadTheme st = (Normal Light, []))
   \<and> (\<forall>v. getItem st STORAGE_THEME = Normal (Some v) \<and> v \<noteq> js ''dark'' \<and> v \<noteq> js ''light''
          \<longrightarrow> loadTheme st = (Normal Light, []))
   \<and> (getItem st STORAGE_THEME = Normal None \<longrightarrow> loadTheme st = (Normal Light, []))
   \<and> (\<forall>err. getItem st STORAGE_THEME = Throw err
          \<longrightarrow> loadTheme st = (Normal Light, [(''Failed to load theme from localStorage'', err)]))"
  by (simp add: loadTheme_def try_catch_def)

theorem loadTheme_cases_witness:
  "loadTheme store_purple = (Normal Light, [])
   \<and> loadTheme (store_purple\<lparr>items := Map.empty(STORAGE_THEME \<mapsto> js ''dark'')\<rparr>) = (Normal Dark, [])
   \<and> loadTheme (store_purple\<lparr>items := Map.empty(STORAGE_THEME \<mapsto> js ''light'')\<rparr>) = (Normal Light, [])
   \<and> loadTheme (store_purple\<lparr>items := Map.empty\<rparr>) = (Normal Light, [])
   \<and> loadTheme (store_purple\<lparr>denied := True\<rparr>)
        = (Normal Light, [(''Failed to load theme from localStorage'', SecurityError)])"
proof -
  have 1: "getItem store_purple STORAGE_THEME = Normal (Some (js ''purple''))"
    by (simp add: getItem_def store_purple_def)
  have 2: "getItem (store_purple\<lparr>items := Map.empty(STORAGE_THEME \<mapsto> js ''dark'')\<rparr>) STORAGE_THEME
            = Normal (Some (js ''dark''))"
    by (simp add: getItem_def store_purple_def)
  have 3: "getItem (store_purple\<lparr>items := Map.empty(STORAGE_THEME \<mapsto> js ''light'')\<rparr>) STORAGE_THEME
            = Normal (Some (js ''light''))"
    by (simp add: getItem_def store_purple_def)
  have 4: "getItem (store_purple\<lparr>items := Map.empty\<rparr>) STORAGE_THEME = Normal None"
    by (simp add: getItem_def store_purple_def)
  have 5: "getItem (store_purple\<lparr>denied := True\<rparr>) STORAGE_THEME = Throw SecurityError"
    by (simp add: getItem_def store_purple_def)
  show ?thesis
    using loadTheme_cases [of store_purple] 1
      loadTheme_cases [of "store_purple\<lparr>items := Map.empty(STORAGE_THEME \<mapsto> js ''dark'')\<rparr>"] 2
      loadTheme_cases [of "store_purple\<lparr>items := Map.empty(STORAGE_THEME \<mapsto> js ''light'')\<rparr>"] 3
      loadTheme_cases [of "store_purple\<lparr>items := Map.empty\<rparr>"] 4
      loadTheme_cases [of "store_purple\<lparr>denied := True\<rparr>"] 5
    by simp
qed

section \<open>JSON.parse on sample texts\<close>

text \<open>
  Texts of the grammar with their values (white space, numbers, escapes, a key that occurs
  twice), and texts outside it: a trailing comma, a missing comma, a leading zero, a digit
  missing after the point, an unfinished literal or string, two values, a bracket closed by
  a brace, an escape and a control character the grammar does not have, a byte order mark.
\<close>

lemma JSON_parse_accepts:
  "JSON_parse (js '' [ 10 , -2.5e+3, true,false , null, {}, [[]] ] '')
     = Normal (JArray [JNumber (js ''10''), JNumber (js ''-2.5e+3''), JBool True, JBool False, JNull,
                       JObject [], JArray [JArray []]])"
  "JSON_parse ([0x22, 0x5C, 0x75, 0x30, 0x30, 0x45, 0x39, 0x5C, 0x6E, 0x5C, 0x2F, 0x22])
     = Normal (JString [0xE9, 0x0A, 0x2F])"
  "JSON_parse ([0x7B, 0x22, 0x61, 0x22, 0x3A, 0x31, 0x2C, 0x22, 0x62, 0x22, 0x3A, 0x32,
                0x2C, 0x22, 0x61, 0x22, 0x3A, 0x33, 0x7D])
     = Normal (JObject [(js ''a'', JNumber (js ''3'')), (js ''b'', JNumber (js ''2''))])"
  by (simp_all add: JSON_parse_def js_def json_ws_def is_digit_def expects_value_def
      lex_number_def lex_minus_def lex_int_def lex_frac_def lex_exp_def lex_sign_def lex_digits_def
      consumed_def unescape_def unhex_def)

lemma JSON_parse_rejects:
  "JSON_parse (js ''[1,]'') = Throw SyntaxError"
  "JSON_parse (js ''[1 2]'') = Throw SyntaxError"
  "JSON_parse (js ''{,}'') = Throw SyntaxError"
  "JSON_parse (js ''01'') = Throw SyntaxError"
  "JSON_parse (js ''1.'') = Throw SyntaxError"
  "JSON_parse (js ''tru'') = Throw SyntaxError"
  "JSON_parse (js ''[] []'') = Throw SyntaxError"
  "JSON_parse (js ''[}'') = Throw SyntaxError"
  "JSON_parse [0x22, 0x61] = Throw SyntaxError"
  "JSON_parse [0x22, 0x5C, 0x78, 0x22] = Throw SyntaxError"
  "JSON_parse [0x22, 0x0A, 0x22] = Throw SyntaxError"
  "JSON_parse [0xFEFF, 0x5B, 0x5D] = Throw SyntaxError"
  by (simp_all add: JSON_parse_def js_def json_ws_def is_digit_def expects_value_def
      lex_number_def lex_minus_def lex_int_def lex_frac_def lex_exp_def lex_sign_def lex_digits_def
      consumed_def unescape_def unhex_def)

section \<open>Reading back a quoted string\<close>

lemma unat_hexdigit: "n < 16 \<Longrightarrow> unat (hexdigit n) = (if n < 10 then 48 + n else 87 + n)"
proof -
  assume n: "n < 16"
  have a: "unat (of_nat (48 + n) :: 16 word) = 48 + n"
    using n by (intro unat_of_nat_16) simp
  have b: "unat (of_nat (87 + n) :: 16 word) = 87 + n"
    using n by (intro unat_of_nat_16) simp
  show ?thesis
  proof (cases "n < 10")
    case True
    then show ?thesis by (simp only: hexdigit_def a if_True)
  next
    case False
    then show ?thesis by (simp only: hexdigit_def b if_False)
  qed
qed

lemma unhex_hexdigit: "n < 16 \<Longrightarrow> unhex (hexdigit n) = Some n"
  by (simp add: unhex_def word_le_nat_alt unat_hexdigit)

lemma unat_16_less: "unat (c :: 16 word) < 65536"
  using unsigned_less [of c, where 'a = nat] by simp

lemma nibbles: "((x div 4096 * 16 + x div 256 mod 16) * 16 + x div 16 mod 16) * 16 + x mod 16 = x"
  for x :: nat
proof -
  have "x div 256 div 16 = x div 4096"
    by (simp add: div_mult2_eq [symmetric])
  then have a: "x div 4096 * 16 + x div 256 mod 16 = x div 256"
    using div_mult_mod_eq [of "x div 256" 16] by simp
  have "x div 16 div 16 = x div 256"
    by (simp add: div_mult2_eq [symmetric])
  then have b: "x div 256 * 16 + x div 16 mod 16 = x div 16"
    using div_mult_mod_eq [of "x div 16" 16] by simp
  have c: "x div 16 * 16 + x mod 16 = x"
    by (rule div_mult_mod_eq)
  show ?thesis
    by (simp only: a b c)
qed

lemma unhex4_digits:
  "a < 16 \<Longrightarrow> b < 16 \<Longrightarrow> c < 16 \<Longrightarrow> d < 16 \<Longrightarrow>
     unhex4 [hexdigit a, hexdigit b, hexdigit c, hexdigit d]
       = Some (of_nat (((a * 16 + b) * 16 + c) * 16 + d))"
  by (simp add: unhex_hexdigit)

lemma unhex4_hex4: "unhex4 (hex4 c) = Some c"
proof -
  have "unat c div 4096 < 16"
    using unat_16_less [of c] by simp
  then have "unhex4 (hex4 c)
      = Some (of_nat (((unat c div 4096 * 16 + unat c div 256 mod 16) * 16 + unat c div 16 mod 16) * 16
                + unat c mod 16))"
    unfolding hex4_def by (intro unhex4_digits) simp_all
  also have "\<dots> = Some (of_nat (unat c))"
    by (simp only: nibbles)
  finally show ?thesis
    by simp
qed

lemma lex_string_plain:
  "c \<noteq> 0x22 \<Longrightarrow> c \<noteq> 0x5C \<Longrightarrow> \<not> c < 0x20 \<Longrightarrow> lex_string (c # r) = consumed c 1 (lex_string r)"
  by simp

lemma lex_string_escape:
  "e \<noteq> 0x75 \<Longrightarrow> unescape e = Some c \<Longrightarrow> lex_string (0x5C # e # r) = consumed c 2 (lex_string r)"
  by simp

lemma lex_string_u4:
  "lex_string (0x5C # 0x75 # a # b # c # d # r)
     = (case unhex4 [a, b, c, d] of None \<Rightarrow> None | Some w \<Rightarrow> consumed w 6 (lex_string r))"
  by (simp del: unhex4.simps cong: option.case_cong)

lemma lex_string_unicode:
  "lex_string (0x5C # 0x75 # hex4 c @ r) = consumed c 6 (lex_string r)"
proof -
  obtain a b c' d where h: "hex4 c = [a, b, c', d]"
    by (simp add: hex4_def)
  with unhex4_hex4 [of c] have "unhex4 [a, b, c', d] = Some c"
    by simp
  then show ?thesis
    by (simp add: h lex_string_u4 del: lex_string.simps unhex4.simps)
qed

lemma escape_unescape: "escape c = Some e \<Longrightarrow> e \<noteq> 0x75 \<and> unescape e = Some c"
  by (auto simp: escape_def unescape_def split: if_splits)

lemma escape_None: "escape c = None \<Longrightarrow> c \<noteq> 0x22 \<and> c \<noteq> 0x5C"
  by (auto simp: escape_def split: if_splits)

lemma lex_string_quote_unit:
  "lex_string (quote_unit c @ r) = consumed c (length (quote_unit c)) (lex_string r)"
proof (cases "escape c")
  case (Some e)
  then show ?thesis
    using escape_unescape [OF Some]
    by (simp add: quote_unit_def lex_string_escape numeral_2_eq_2 del: lex_string.simps)
next
  case None
  show ?thesis
  proof (cases "c < 0x20 \<or> is_high_surrogate c \<or> is_low_surrogate c")
    case True
    have "length (hex4 c) = 4"
      by (simp add: hex4_def)
    with None True show ?thesis
      by (simp add: quote_unit_def lex_string_unicode del: lex_string.simps)
  next
    case False
    with None escape_None [OF None] show ?thesis
      by (simp add: quote_unit_def lex_string_plain del: lex_string.simps)
  qed
qed

lemma surrogate_plain:
  "is_high_surrogate c \<or> is_low_surrogate c \<Longrightarrow> c \<noteq> 0x22 \<and> c \<noteq> 0x5C \<and> \<not> c < 0x20"
  by (auto simp: is_high_surrogate_def is_low_surrogate_def word_le_nat_alt word_less_nat_alt)

lemma lex_string_quote_units:
  "lex_string (quote_units s @ 0x22 # r) = Some (s, Suc (length (quote_units s)))"
proof (induction s rule: quote_units.induct)
  case 1
  show ?case by simp
next
  case (2 c)
  show ?case
    by (simp add: lex_string_quote_unit consumed_def del: lex_string.simps) simp
next
  case (3 c d ds)
  show ?case
  proof (cases "is_high_surrogate c \<and> is_low_surrogate d")
    case True
    then have c: "c \<noteq> 0x22 \<and> c \<noteq> 0x5C \<and> \<not> c < 0x20" and d: "d \<noteq> 0x22 \<and> d \<noteq> 0x5C \<and> \<not> d < 0x20"
      by (simp_all add: surrogate_plain)
    from True 3 have "lex_string (quote_units ds @ 0x22 # r) = Some (ds, Suc (length (quote_units ds)))"
      by simp
    with True c d show ?thesis
      by (simp add: lex_string_plain consumed_def del: lex_string.simps)
  next
    case False
    with 3 have "lex_string (quote_units (d # ds) @ 0x22 # r)
        = Some (d # ds, Suc (length (quote_units (d # ds))))"
      by simp
    moreover from False have "quote_units (c # d # ds) = quote_unit c @ quote_units (d # ds)"
      by auto
    ultimately show ?thesis
      by (simp add: lex_string_quote_unit consumed_def del: lex_string.simps quote_units.simps)
  qed
qed

section \<open>Reading back a stored collection\<close>

lemma js_punctuation:
  "js ''{'' = [0x7B]" "js ''}'' = [0x7D]" "js ''['' = [0x5B]" "js '']'' = [0x5D]"
  "js '':'' = [0x3A]" "js '','' = [0x2C]"
  by (simp_all add: js_def)

lemma tokenize_LBrace: "tokenize r = Some ts \<Longrightarrow> tokenize (0x7B # r) = Some (LBrace # ts)"
  by (simp add: json_ws_def)

lemma tokenize_RBrace: "tokenize r = Some ts \<Longrightarrow> tokenize (0x7D # r) = Some (RBrace # ts)"
  by (simp add: json_ws_def)

lemma tokenize_LBracket: "tokenize r = Some ts \<Longrightarrow> tokenize (0x5B # r) = Some (LBracket # ts)"
  by (simp add: json_ws_def)

lemma tokenize_Colon: "tokenize r = Some ts \<Longrightarrow> tokenize (0x3A # r) = Some (Colon # ts)"
  by (simp add: json_ws_def)

lemma tokenize_Comma: "tokenize r = Some ts \<Longrightarrow> tokenize (0x2C # r) = Some (Comma # ts)"
  by (simp add: json_ws_def)

lemma tokenize_QuoteJSONString:
  "tokenize r = Some ts \<Longrightarrow> tokenize (QuoteJSONString s @ r) = Some (TString s # ts)"
  by (simp add: QuoteJSONString_def json_ws_def lex_string_quote_units del: lex_string.simps)

lemma tokenize_boolean:
  "tokenize r = Some ts \<Longrightarrow>
     tokenize (stringify_boolean b @ r) = Some ((if b then TTrue else TFalse) # ts)"
  by (simp add: stringify_boolean_def js_def json_ws_def is_digit_def)

lemma tokenize_Todo:
  "tokenize r = Some ts \<Longrightarrow> tokenize (stringify_Todo t @ r) = Some (Todo_tokens t @ ts)"
  by (simp add: stringify_Todo_def property_def Todo_tokens_def js_punctuation
      tokenize_LBrace tokenize_RBrace tokenize_Colon tokenize_Comma tokenize_QuoteJSONString
      tokenize_boolean del: tokenize.simps)

lemma tokenize_elements:
  "tokenize r = Some ts \<Longrightarrow>
     tokenize (join_comma (map stringify_Todo xs) @ r) = Some (elements_tokens xs @ ts)"
proof (induction xs rule: elements_tokens.induct)
  case 1
  then show ?case by simp
next
  case (2 x)
  then show ?case by (simp add: tokenize_Todo del: tokenize.simps)
next
  case (3 x y ys)
  then have "tokenize (join_comma (map stringify_Todo (y # ys)) @ r) = Some (elements_tokens (y # ys) @ ts)"
    by simp
  then show ?case
    by (simp add: tokenize_Todo tokenize_Comma js_punctuation del: tokenize.simps)
qed

lemma tokenize_JSON_stringify:
  "tokenize (JSON_stringify xs) = Some (LBracket # elements_tokens xs @ [RBracket])"
proof -
  have "tokenize [0x5D] = Some [RBracket]"
    by (simp add: json_ws_def)
  then have "tokenize (join_comma (map stringify_Todo xs) @ [0x5D]) = Some (elements_tokens xs @ [RBracket])"
    by (rule tokenize_elements)
  then show ?thesis
    by (simp add: JSON_stringify_def js_punctuation tokenize_LBracket del: tokenize.simps)
qed

lemma run_Todo:
  "expects_value e \<Longrightarrow>
     run e (InArray vs # stack) (Todo_tokens t @ ts)
       = run AfterValue (InArray (vs @ [Todo_value t]) # stack) ts"
  by (simp add: Todo_tokens_def Todo_value_def expects_value_def)

lemma run_elements:
  "xs \<noteq> [] \<Longrightarrow> expects_value e \<Longrightarrow>
     run e (InArray vs # stack) (elements_tokens xs @ ts)
       = run AfterValue (InArray (vs @ map Todo_value xs) # stack) ts"
proof (induction xs arbitrary: vs e rule: elements_tokens.induct)
  case 1
  then show ?case by simp
next
  case (2 x)
  then show ?case by (simp add: run_Todo)
next
  case (3 x y ys)
  have "run e (InArray vs # stack) (elements_tokens (x # y # ys) @ ts)
          = run AfterValue (InArray (vs @ [Todo_value x]) # stack) (Comma # elements_tokens (y # ys) @ ts)"
    using "3.prems" by (simp add: run_Todo)
  also have "\<dots> = run ExpectValue (InArray (vs @ [Todo_value x]) # stack) (elements_tokens (y # ys) @ ts)"
    by simp
  also have "\<dots> = run AfterValue (InArray ((vs @ [Todo_value x]) @ map Todo_value (y # ys)) # stack) ts"
    by (rule "3.IH") (simp_all add: expects_value_def)
  finally show ?case
    by simp
qed

lemma run_JSON_stringify:
  "run ExpectValue [] (LBracket # elements_tokens xs @ [RBracket]) = Some (JArray (map Todo_value xs))"
proof (cases "xs = []")
  case True
  then show ?thesis
    by (simp add: expects_value_def)
next
  case False
  have "run ExpectValue [] (LBracket # elements_tokens xs @ [RBracket])
          = run ExpectValueOrEnd [InArray []] (elements_tokens xs @ [RBracket])"
    by (simp add: expects_value_def)
  also have "\<dots> = run AfterValue [InArray ([] @ map Todo_value xs)] [RBracket]"
    using False by (intro run_elements) (simp_all add: expects_value_def)
  also have "\<dots> = Some (JArray (map Todo_value xs))"
    by simp
  finally show ?thesis .
qed

lemma JSON_parse_stringify: "JSON_parse (JSON_stringify xs) = Normal (JArray (map Todo_value xs))"
  by (simp add: JSON_parse_def tokenize_JSON_stringify run_JSON_stringify del: run.simps tokenize.simps)

lemma as_Todo_value: "as_Todo (Todo_value t) = Some t"
  by (simp add: as_Todo_def Todo_value_def)

lemma as_Todos_values: "as_Todos (JArray (map Todo_value xs)) = Some xs"
  by (simp add: as_Todos_def as_Todo_value list_all_iff map_idI)

lemma JSON_stringify_nonempty: "JSON_stringify xs \<noteq> []"
  by (simp add: JSON_stringify_def js_punctuation)

text \<open>
  Claim C9. On a store that works (access is not denied and the write is not refused),
  \<open>saveTodos c\<close> completes normally without a message, and \<open>loadTodos\<close> on the store it leaves
  returns, again without a message, the array of the objects of the tasks of \<open>c\<close> in order:
  read as a \<open>Todo[]\<close>, the collection \<open>c\<close> itself.
\<close>

theorem save_then_load:
  "\<not> denied st \<Longrightarrow> \<not> full st STORAGE_ITEMS (JSON_stringify c) \<Longrightarrow>
     \<exists>st'. saveTodos c st = (Normal st', [])
       \<and> loadTodos st' = (Normal (JArray (map Todo_value c)), [])
       \<and> as_Todos (JArray (map Todo_value c)) = Some c"
  by (simp add: saveTodos_def loadTodos_def setItem_def getItem_def try_catch_def
      JSON_parse_stringify as_Todos_values JSON_stringify_nonempty)

theorem save_then_load_witness:
  "\<exists>st'. saveTodos [todo_b, todo_a] store_purple = (Normal st', [])
     \<and> loadTodos st' = (Normal (JArray (map Todo_value [todo_b, todo_a])), [])
     \<and> as_Todos (JArray (map Todo_value [todo_b, todo_a])) = Some [todo_b, todo_a]"
proof -
  have "\<not> denied store_purple"
    by (simp add: store_purple_def)
  moreover have "\<not> full store_purple STORAGE_ITEMS (JSON_stringify [todo_b, todo_a])"
    by (simp add: store_purple_def)
  ultimately show ?thesis
    by (rule save_then_load)
qed

section \<open>Loading the tasks\<close>

text \<open>
  Claim C1, as stated, fails on two kinds of stored content. The empty string cannot be
  parsed, and \<open>loadTodos\<close> returns the empty sequence for it without logging anything: the
  guard \<open>!raw\<close> returns before \<open>JSON.parse\<close> is called. And a text that parses to a value
  that is no sequence of tasks, here an object without properties, is returned as it was
  parsed: the result is not the empty sequence, and nothing is logged.
\<close>

theorem loadTodos_silent_or_unchecked:
  "JSON_parse [] = Throw SyntaxError
   \<and> loadTodos (store_items []) = (Normal (JArray []), [])
   \<and> as_Todos (JObject []) = None
   \<and> loadTodos (store_items (js ''{}'')) = (Normal (JObject []), [])
   \<and> fst (loadTodos (store_items (js ''{}''))) \<noteq> Normal (JArray [])"
  by (simp add: loadTodos_def getItem_def try_catch_def store_items_def JSON_parse_def
      as_Todos_def js_def json_ws_def is_digit_def expects_value_def)

text \<open>
  Claim C1, amended. \<open>loadTodos\<close> never throws. When the key is absent, and when the stored
  content is the empty string, it returns the empty sequence and logs nothing. For every
  other stored content that \<open>JSON.parse\<close> rejects, and when reading the store throws, it
  logs the failure and returns the empty sequence.
\<close>

theorem loadTodos_fallback:
  "(\<exists>v out. loadTodos st = (Normal v, out))
   \<and> (getItem st STORAGE_ITEMS = Normal None \<longrightarrow> loadTodos st = (Normal (JArray []), []))
   \<and> (getItem st STORAGE_ITEMS = Normal (Some []) \<longrightarrow> loadTodos st = (Normal (JArray []), []))
   \<and> (\<forall>raw err. getItem st STORAGE_ITEMS = Normal (Some raw) \<and> raw \<noteq> [] \<and> JSON_parse raw = Throw err
          \<longrightarrow> loadTodos st
                = (Normal (JArray []), [(''Failed to load todos from localStorage'', err)]))
   \<and> (\<forall>err. getItem st STORAGE_ITEMS = Throw err
          \<longrightarrow> loadTodos st
                = (Normal (JArray []), [(''Failed to load todos from localStorage'', err)]))"
proof -
  have total: "\<exists>v out. loadTodos st = (Normal v, out)"
    by (simp add: loadTodos_def try_catch_def split: completion.split option.split)
  have rest: "(getItem st STORAGE_ITEMS = Normal None \<longrightarrow> loadTodos st = (Normal (JArray []), []))
   \<and> (getItem st STORAGE_ITEMS = Normal (Some []) \<longrightarrow> loadTodos st = (Normal (JArray []), []))
   \<and> (\<forall>raw err. getItem st STORAGE_ITEMS = Normal (Some raw) \<and> raw \<noteq> [] \<and> JSON_parse raw = Throw err
          \<longrightarrow> loadTodos st
                = (Normal (JArray []), [(''Failed to load todos from localStorage'', err)]))
   \<and> (\<forall>err. getItem st STORAGE_ITEMS = Throw err
          \<longrightarrow> loadTodos st
                = (Normal (JArray []), [(''Failed to load todos from localStorage'', err)]))"
    by (simp add: loadTodos_def try_catch_def)
  from total rest show ?thesis
    by (rule conjI)
qed

theorem loadTodos_fallback_witness:
  "loadTodos store_purple = (Normal (JArray []), [])
   \<and> loadTodos (store_items []) = (Normal (JArray []), [])
   \<and> loadTodos (store_items (js ''[{oops''))
        = (Normal (JArray []), [(''Failed to load todos from localStorage'', SyntaxError)])
   \<and> loadTodos (store_purple\<lparr>denied := True\<rparr>)
        = (Normal (JArray []), [(''Failed to load todos from localStorage'', SecurityError)])"
proof -
  have 1: "getItem store_purple STORAGE_ITEMS = Normal None"
    by (simp add: getItem_def store_purple_def STORAGE_ITEMS_def STORAGE_THEME_def)
  have 2: "getItem (store_items []) STORAGE_ITEMS = Normal (Some [])"
    by (simp add: getItem_def store_items_def)
  have 3: "getItem (store_items (js ''[{oops'')) STORAGE_ITEMS = Normal (Some (js ''[{oops''))
      \<and> js ''[{oops'' \<noteq> [] \<and> JSON_parse (js ''[{oops'') = Throw SyntaxError"
    by (simp add: getItem_def store_items_def JSON_parse_def js_def json_ws_def is_digit_def)
  have 4: "getItem (store_purple\<lparr>denied := True\<rparr>) STORAGE_ITEMS = Throw SecurityError"
    by (simp add: getItem_def)
  show ?thesis
    using loadTodos_fallback [of store_purple] 1
      loadTodos_fallback [of "store_items []"] 2
      loadTodos_fallback [of "store_items (js ''[{oops'')"] 3
      loadTodos_fallback [of "store_purple\<lparr>denied := True\<rparr>"] 4
    by simp
qed

end
